theory Spec2Isabelle
  imports Complex_Main "HOL-Library.Sublist"
begin

section \<open>Errors and Python list primitives\<close>

text \<open>
  Every exception the modelled code can raise is a value of \<open>error\<close>; a function that
  may raise returns \<open>error + 'a\<close>, with \<open>Inl\<close> for the exception.
\<close>

datatype error =
    AssertionError
  | IndexError
  | TypeError
  | ValueError
  | RuntimeError
  | Exception string

definition bind :: "error + 'a \<Rightarrow> ('a \<Rightarrow> error + 'b) \<Rightarrow> error + 'b" where
  "bind r f = (case r of Inl e \<Rightarrow> Inl e | Inr x \<Rightarrow> f x)"

text \<open>A list comprehension over a function that may raise: the first exception wins.\<close>

fun mapM :: "('a \<Rightarrow> error + 'b) \<Rightarrow> 'a list \<Rightarrow> error + 'b list" where
  "mapM f [] = Inr []"
| "mapM f (x # xs) = bind (f x) (\<lambda>y. bind (mapM f xs) (\<lambda>ys. Inr (y # ys)))"

text \<open>Python's \<open>xs[i]\<close> for a non-negative constant index: IndexError out of range.\<close>

definition py_get :: "'a list \<Rightarrow> nat \<Rightarrow> error + 'a" where
  "py_get xs i = (if i < length xs then Inr (xs ! i) else Inl IndexError)"

text \<open>
  Python's \<open>xs[i] = v\<close> for an integer index: a negative index counts from the end,
  and an index outside \<open>[-len, len)\<close> raises IndexError.
\<close>

definition py_set :: "'a list \<Rightarrow> int \<Rightarrow> 'a \<Rightarrow> error + 'a list" where
  "py_set xs i v =
     (if 0 \<le> i \<and> i < int (length xs) then Inr (xs[nat i := v])
      else if - int (length xs) \<le> i \<and> i < 0 then Inr (xs[nat (int (length xs) + i) := v])
      else Inl IndexError)"

text \<open>\<open>s.split(c)\<close> for a one-character separator: the segments between occurrences.\<close>

fun split_on :: "char \<Rightarrow> string \<Rightarrow> string list" where
  "split_on c [] = [[]]"
| "split_on c (x # xs) =
     (if x = c then [] # split_on c xs
      else (x # hd (split_on c xs)) # tl (split_on c xs))"

definition startswith :: "string \<Rightarrow> string \<Rightarrow> bool" where
  "startswith s p = prefix p s"

text \<open>
  \<open>str.upper\<close> is a function of the language's library over all of Unicode; the
  constructor below takes it as a parameter. On a string of ASCII characters it maps
  the letters a to z to A to Z and leaves every other character as it is:
  \<open>ascii_upper\<close> is that restriction, and stands for \<open>str.upper\<close> only on the ASCII
  format strings of the concrete inputs.
\<close>

definition ascii_upper_char :: "char \<Rightarrow> char" where
  "ascii_upper_char c =
     (let n = (of_char c :: nat)
      in if 97 \<le> n \<and> n \<le> 122 then char_of (n - 32) else c)"

definition ascii_upper :: "string \<Rightarrow> string" where
  "ascii_upper s = map ascii_upper_char s"

section \<open>The tag dictionary\<close>

text \<open>
  Modelled from the spec: the class \<open>flair.data.Dictionary\<close> is not among the source
  files. The spec describes it as an ordered mapping from tag string to integer index,
  with an optional unknown sentinel, either flat or span-level, supporting "is this
  span-level", "list items", "add item" and "index lookup". The index of an item is
  its position in \<open>idx2item\<close>; \<open>item2idx\<close> is read off that list.
\<close>

record Dictionary =
  idx2item :: "string list"
  add_unk :: bool
  span_labels :: bool

definition Dictionary_init :: "bool \<Rightarrow> Dictionary" where
  "Dictionary_init unk =
     \<lparr>idx2item = (if unk then [''<unk>''] else []), add_unk = unk, span_labels = False\<rparr>"

definition add_item :: "Dictionary \<Rightarrow> string \<Rightarrow> Dictionary" where
  "add_item d item =
     (if item \<in> set (idx2item d) then d else d\<lparr>idx2item := idx2item d @ [item]\<rparr>)"

definition get_items :: "Dictionary \<Rightarrow> string list" where
  "get_items d = idx2item d"

definition item2idx_items :: "Dictionary \<Rightarrow> (string \<times> nat) list" where
  "item2idx_items d = zip (idx2item d) [0..<length (idx2item d)]"

definition dict_len :: "Dictionary \<Rightarrow> nat" where
  "dict_len d = length (idx2item d)"

fun index_of :: "string list \<Rightarrow> string \<Rightarrow> nat option" where
  "index_of [] x = None"
| "index_of (y # ys) x = (if x = y then Some 0 else map_option Suc (index_of ys x))"

definition get_idx_for_item :: "Dictionary \<Rightarrow> string \<Rightarrow> error + nat" where
  "get_idx_for_item d item =
     (case index_of (idx2item d) item of
        Some i \<Rightarrow> Inr i
      | None \<Rightarrow> if add_unk d then Inr 0 else Inl IndexError)"

definition get_item_for_index :: "Dictionary \<Rightarrow> nat \<Rightarrow> error + string" where
  "get_item_for_index d i = py_get (idx2item d) i"

section \<open>The label space builder\<close>

text \<open>
  The body of the loop of \<open>_init_verbalizers_and_tag_dictionary\<close> over the items of
  the input dictionary: the unknown sentinel is skipped; every other label adds "O"
  and its prefixed variants for the format.
\<close>

definition expand_label :: "string \<Rightarrow> Dictionary \<Rightarrow> string \<Rightarrow> Dictionary" where
  "expand_label fmt d label =
     (if label = ''<unk>'' then d
      else
        let d1 = add_item d ''O'';
            d2 = (if fmt = ''BIOES''
                  then add_item (add_item (add_item (add_item d1 (''S-'' @ label))
                         (''B-'' @ label)) (''E-'' @ label)) (''I-'' @ label)
                  else d1);
            d3 = (if fmt = ''BIO''
                  then add_item (add_item d2 (''B-'' @ label)) (''I-'' @ label)
                  else d2)
        in d3)"

definition init_label_dictionary :: "string \<Rightarrow> Dictionary \<Rightarrow> error + Dictionary" where
  "init_label_dictionary fmt tag_dictionary =
     (if span_labels tag_dictionary then
        (if fmt \<in> set [''BIOES'', ''BIO'']
         then Inr (foldl (expand_label fmt) (Dictionary_init False) (get_items tag_dictionary))
         else Inl AssertionError)
      else Inr tag_dictionary)"

text \<open>
  The verbalization of one tag: "O", a "B-" tag and an "I-" tag get a phrase; any
  other tag gets none. The phrase takes the second segment of the tag split at "-".
\<close>

definition verbalize :: "string \<Rightarrow> error + string option" where
  "verbalize label =
     (if label = ''O'' then Inr (Some ''other'')
      else if startswith label ''B-''
        then bind (py_get (split_on CHR ''-'' label) 1) (\<lambda>t. Inr (Some (''begin '' @ t)))
      else if startswith label ''I-''
        then bind (py_get (split_on CHR ''-'' label) 1) (\<lambda>t. Inr (Some (''inside '' @ t)))
      else Inr None)"

fun init_verbalizers :: "(string \<times> nat) list \<Rightarrow> error + (nat \<times> string) list" where
  "init_verbalizers [] = Inr []"
| "init_verbalizers ((label, i) # rest) =
     bind (verbalize label) (\<lambda>v.
       bind (init_verbalizers rest) (\<lambda>vs.
         Inr (case v of None \<Rightarrow> vs | Some p \<Rightarrow> (i, p) # vs)))"

section \<open>Tokens, spans and sentences\<close>

text \<open>
  Modelled from the spec: the classes \<open>Token\<close>, \<open>Span\<close> and \<open>Sentence\<close> of
  \<open>flair.data\<close> are not among the source files. The spec describes a sentence as an
  ordered sequence of tokens, each with optional span-level or token-level labels and
  a score, and a span as a contiguous token range with a single label and a score; the
  object model supports label attachment with value and score. A label is a triple of
  its type name, its value and its score; \<open>idx\<close> is the 1-based position of a token;
  a span is the list of its tokens.
\<close>

record Token =
  token_text :: string
  idx :: int
  annotation_layers :: "(string \<times> string \<times> real) list"

type_synonym Span = "Token list"

record Sentence =
  tokens :: "Token list"
  span_annotations :: "(string \<times> Span \<times> string \<times> real) list"

definition token_add_label :: "string \<Rightarrow> string \<Rightarrow> real \<Rightarrow> Token \<Rightarrow> Token" where
  "token_add_label typename v score t =
     t\<lparr>annotation_layers := annotation_layers t @ [(typename, v, score)]\<rparr>"

definition token_remove_labels :: "string \<Rightarrow> Token \<Rightarrow> Token" where
  "token_remove_labels typename t =
     t\<lparr>annotation_layers := filter (\<lambda>l. fst l \<noteq> typename) (annotation_layers t)\<rparr>"

definition token_get_labels :: "string \<Rightarrow> Token \<Rightarrow> (string \<times> real) list" where
  "token_get_labels typename t =
     map snd (filter (\<lambda>l. fst l = typename) (annotation_layers t))"

definition token_get_label :: "string \<Rightarrow> string \<Rightarrow> Token \<Rightarrow> string" where
  "token_get_label typename zero_tag_value t =
     (case token_get_labels typename t of [] \<Rightarrow> zero_tag_value | l # _ \<Rightarrow> fst l)"

definition sentence_len :: "Sentence \<Rightarrow> nat" where
  "sentence_len s = length (tokens s)"

definition get_labels :: "string \<Rightarrow> Sentence \<Rightarrow> (Span \<times> string) list" where
  "get_labels typename s =
     map (\<lambda>l. (fst (snd l), fst (snd (snd l))))
       (filter (\<lambda>l. fst l = typename) (span_annotations s))"

definition remove_labels :: "string \<Rightarrow> Sentence \<Rightarrow> Sentence" where
  "remove_labels typename s =
     s\<lparr>tokens := map (token_remove_labels typename) (tokens s),
       span_annotations := filter (\<lambda>l. fst l \<noteq> typename) (span_annotations s)\<rparr>"

text \<open>\<open>sentence[a : b].add_label(typename, value, score)\<close>: a label on a slice.\<close>

definition span_add_label ::
  "string \<Rightarrow> nat \<Rightarrow> nat \<Rightarrow> string \<Rightarrow> real \<Rightarrow> Sentence \<Rightarrow> Sentence" where
  "span_add_label typename a b v score s =
     s\<lparr>span_annotations :=
         span_annotations s @ [(typename, take (b - a) (drop a (tokens s)), v, score)]\<rparr>"

section \<open>The model object\<close>

text \<open>
  The fields the constructor sets. The two encoders are the embedders the model is
  given: \<open>token_encoder s i\<close> is the embedding of the \<open>i\<close>-th token of sentence
  \<open>s\<close>, \<open>label_encoder p\<close> the embedding of the phrase \<open>p\<close>. Tensors of floats are
  lists of reals.
\<close>

record DualEncoder =
  tag_type :: string
  tag_format :: string
  label_dictionary :: Dictionary
  predict_spans :: bool
  idx2verbalized_label :: "(nat \<times> string) list"
  tagset_size :: nat
  token_encoder :: "Sentence \<Rightarrow> nat \<Rightarrow> real list"
  label_encoder :: "string \<Rightarrow> real list"
  use_dropout :: real

text \<open>
  \<open>_init_verbalizers_and_tag_dictionary\<close>: the label dictionary, whether spans are
  predicted, the phrase of every verbalized index, and the tagset size.
\<close>

definition init_verbalizers_and_tag_dictionary ::
  "string \<Rightarrow> Dictionary \<Rightarrow> error + Dictionary \<times> bool \<times> (nat \<times> string) list \<times> nat" where
  "init_verbalizers_and_tag_dictionary fmt tag_dictionary =
     bind (init_label_dictionary fmt tag_dictionary) (\<lambda>ld.
       bind (init_verbalizers (item2idx_items ld)) (\<lambda>vs.
         Inr (ld, span_labels tag_dictionary, vs, dict_len ld)))"

text \<open>
  \<open>DualEncoder.__init__\<close>. The format is upper-cased by \<open>str_upper\<close>, the library's
  \<open>str.upper\<close>, before anything reads it. A positive dropout builds
  \<open>torch.nn.Dropout(dropout)\<close>, which raises ValueError for a probability outside
  \<open>[0, 1]\<close>.
\<close>

definition DualEncoder_init ::
  "(string \<Rightarrow> string) \<Rightarrow> (Sentence \<Rightarrow> nat \<Rightarrow> real list) \<Rightarrow> (string \<Rightarrow> real list) \<Rightarrow>
     Dictionary \<Rightarrow> string \<Rightarrow> string \<Rightarrow> real \<Rightarrow> error + DualEncoder" where
  "DualEncoder_init str_upper tok_enc lab_enc tag_dictionary ttype tformat dropout =
     bind (init_verbalizers_and_tag_dictionary (str_upper tformat) tag_dictionary) (\<lambda>r.
       if dropout > 0 \<and> (dropout < 0 \<or> dropout > 1) then Inl ValueError
       else
         Inr \<lparr>tag_type = ttype,
              tag_format = str_upper tformat,
              label_dictionary = fst r,
              predict_spans = fst (snd r),
              idx2verbalized_label = fst (snd (snd r)),
              tagset_size = snd (snd (snd r)),
              token_encoder = tok_enc,
              label_encoder = lab_enc,
              use_dropout = dropout\<rparr>)"

definition label_type :: "DualEncoder \<Rightarrow> string" where
  "label_type m = tag_type m"

section \<open>Gold labels\<close>

text \<open>\<open>for i in idxs: labels[i] = v\<close>, stopping at the first IndexError.\<close>

fun set_range :: "string list \<Rightarrow> int list \<Rightarrow> string \<Rightarrow> error + string list" where
  "set_range labels [] v = Inr labels"
| "set_range labels (i # is) v = bind (py_set labels i v) (\<lambda>labels'. set_range labels' is v)"

text \<open>
  The body of the loop of \<open>_get_gold_labels\<close> over the span labels of one sentence.
  \<open>span[0]\<close> and \<open>span[-1]\<close> raise IndexError on a span without tokens;
  \<open>range(a, b)\<close> is \<open>[a..b - 1]\<close>.
\<close>

definition encode_span ::
  "string \<Rightarrow> string list \<Rightarrow> Span \<times> string \<Rightarrow> error + string list" where
  "encode_span fmt sentence_labels lab =
     (let span = fst lab; v = snd lab in
      if fmt = ''BIOES'' then
        (if length span = 1 then py_set sentence_labels (idx (hd span) - 1) (''S-'' @ v)
         else if span = [] then Inl IndexError
         else
           bind (py_set sentence_labels (idx (hd span) - 1) (''B-'' @ v)) (\<lambda>l1.
             bind (py_set l1 (idx (last span) - 1) (''E-'' @ v)) (\<lambda>l2.
               set_range l2 [idx (hd span)..idx (last span) - 1 - 1] (''I-'' @ v))))
      else
        (if span = [] then Inl IndexError
         else
           bind (py_set sentence_labels (idx (hd span) - 1) (''B-'' @ v)) (\<lambda>l1.
             set_range l1 [idx (hd span)..idx (last span) - 1] (''I-'' @ v))))"

fun encode_spans ::
  "string \<Rightarrow> string list \<Rightarrow> (Span \<times> string) list \<Rightarrow> error + string list" where
  "encode_spans fmt sentence_labels [] = Inr sentence_labels"
| "encode_spans fmt sentence_labels (lab # labs) =
     bind (encode_span fmt sentence_labels lab) (\<lambda>l. encode_spans fmt l labs)"

definition sentence_gold_labels :: "DualEncoder \<Rightarrow> Sentence \<Rightarrow> error + string list" where
  "sentence_gold_labels m s =
     (if predict_spans m then
        encode_spans (tag_format m) (replicate (sentence_len s) ''O'')
          (get_labels (label_type m) s)
      else Inr (map (token_get_label (label_type m) ''O'') (tokens s)))"

definition get_gold_labels :: "DualEncoder \<Rightarrow> Sentence list \<Rightarrow> error + string list list" where
  "get_gold_labels m sentences = mapM (sentence_gold_labels m) sentences"

section \<open>The scorer\<close>

text \<open>
  The tensor operations of the library, on lists of reals. \<open>torch.stack\<close> raises on an
  empty list and on vectors of different sizes; \<open>torch.mm(a, b.T)\<close> raises when the
  rows of \<open>a\<close> and of \<open>b\<close> differ in size, and holds the inner product of every row
  of \<open>a\<close> with every row of \<open>b\<close>.
\<close>

definition torch_stack :: "real list list \<Rightarrow> error + real list list" where
  "torch_stack vs =
     (if vs = [] then Inl RuntimeError
      else if list_all (\<lambda>v. length v = length (hd vs)) vs then Inr vs
      else Inl RuntimeError)"

definition dot :: "real list \<Rightarrow> real list \<Rightarrow> real" where
  "dot a b = sum_list (map2 (*) a b)"

definition torch_mm_T :: "real list list \<Rightarrow> real list list \<Rightarrow> error + real list list" where
  "torch_mm_T a b =
     (if length (hd a) = length (hd b) then Inr (map (\<lambda>r. map (dot r) b) a)
      else Inl RuntimeError)"

text \<open>The shape of a matrix with at least one row.\<close>

definition shape :: "real list list \<Rightarrow> nat \<times> nat" where
  "shape t = (length t, length (hd t))"

text \<open>
  Lines 88 to 104 of \<open>forward\<close>: one embedding per token of the batch, one per
  verbalized label, and the matrix of their inner products.
\<close>

definition all_tokens_in_batch :: "Sentence list \<Rightarrow> (Sentence \<times> nat) list" where
  "all_tokens_in_batch sentences =
     concat (map (\<lambda>s. map (\<lambda>i. (s, i)) [0..<sentence_len s]) sentences)"

definition compute_logits :: "DualEncoder \<Rightarrow> Sentence list \<Rightarrow> error + real list list" where
  "compute_logits m sentences =
     bind (torch_stack (map (\<lambda>t. token_encoder m (fst t) (snd t)) (all_tokens_in_batch sentences)))
       (\<lambda>token_embedding_tensor.
     bind (torch_stack (map (label_encoder m) (map snd (idx2verbalized_label m))))
       (\<lambda>label_tensor. torch_mm_T token_embedding_tensor label_tensor))"

text \<open>
  \<open>CrossEntropyLoss(reduction="sum")\<close>: one target per row, every target a column of
  the logits, else the library raises.
\<close>

definition loss_fct :: "real list list \<Rightarrow> nat list \<Rightarrow> error + real" where
  "loss_fct logits gold =
     (if length gold \<noteq> length logits then Inl ValueError
      else if list_ex (\<lambda>g. length (hd logits) \<le> g) gold then Inl IndexError
      else Inr (sum_list (map2 (\<lambda>row g. ln (sum_list (map exp row)) - row ! g) logits gold)))"

definition softmax :: "real list \<Rightarrow> real list" where
  "softmax row = map (\<lambda>x. exp x / sum_list (map exp row)) row"

text \<open>\<open>torch.max\<close> along a row: the maximum and the index of its first occurrence.\<close>

definition torch_max :: "real list \<Rightarrow> real \<times> nat" where
  "torch_max row =
     (let mx = fold max (tl row) (hd row)
      in (mx, length (takeWhile (\<lambda>x. x \<noteq> mx) row)))"

fun torch_split :: "'a list \<Rightarrow> nat list \<Rightarrow> 'a list list" where
  "torch_split xs [] = []"
| "torch_split xs (n # ns) = take n xs # torch_split (drop n xs) ns"

definition decode_predictions ::
  "DualEncoder \<Rightarrow> Sentence list \<Rightarrow> real list list \<Rightarrow> error + (string \<times> real) list list" where
  "decode_predictions m sentences logits =
     (let mx = map (\<lambda>row. torch_max (softmax row)) logits;
          lens = map sentence_len sentences;
          scores = torch_split (map fst mx) lens;
          preds = torch_split (map snd mx) lens
      in mapM (\<lambda>sp. mapM (\<lambda>ps. bind (get_item_for_index (label_dictionary m) (fst ps))
                                  (\<lambda>item. Inr (item, snd ps)))
                     (zip (fst sp) (snd sp)))
           (zip preds scores))"

text \<open>What \<open>forward\<close> returns: the loss alone, a pair, or a triple.\<close>

datatype forward_result =
    Loss_Only real
  | Loss_Logits real "real list list"
  | Loss_Preds_Logits real "(string \<times> real) list list" "real list list"

definition forward :: "DualEncoder \<Rightarrow> Sentence list \<Rightarrow> bool \<Rightarrow> bool \<Rightarrow> error + forward_result" where
  "forward m sentences inference return_features =
     bind (compute_logits m sentences) (\<lambda>logits.
     bind (get_gold_labels m sentences) (\<lambda>gold.
     bind (mapM (get_idx_for_item (label_dictionary m)) (concat gold)) (\<lambda>gold_label_tensor.
     bind (loss_fct logits gold_label_tensor) (\<lambda>loss.
       if inference \<and> return_features then
         bind (decode_predictions m sentences logits) (\<lambda>decoded_predictions.
           Inr (Loss_Preds_Logits loss decoded_predictions logits))
       else if return_features then Inr (Loss_Logits loss logits)
       else Inr (Loss_Only loss)))))"

definition forward_loss :: "DualEncoder \<Rightarrow> Sentence list \<Rightarrow> error + forward_result \<times> nat" where
  "forward_loss m sentences =
     (if length sentences = 0 then Inr (Loss_Only 0, 0)
      else bind (forward m sentences False False) (\<lambda>loss.
             Inr (loss, sum_list (map sentence_len sentences))))"

section \<open>Prediction\<close>

text \<open>
  The mini-batches of the data loader: consecutive chunks of \<open>n\<close> sentences, the last
  one shorter; no chunk is empty.
\<close>

function batches :: "nat \<Rightarrow> 'a list \<Rightarrow> 'a list list" where
  "batches n xs = (if n = 0 \<or> xs = [] then [] else take n xs # batches n (drop n xs))"
  by pat_completeness auto
termination
  by (relation "measure (\<lambda>p. length (snd p))") auto

text \<open>
  \<open>loss, preds = self.forward(...)\<close>: unpacking into two names. A loss alone is a
  0-dimensional tensor, which cannot be iterated (TypeError); a triple has too many
  values (ValueError); in a pair of loss and logits the second component is a tensor
  of numbers, and reading \<open>label[0]\<close> from a number raises IndexError.
\<close>

definition unpack_loss_preds :: "forward_result \<Rightarrow> error + real \<times> (string \<times> real) list list" where
  "unpack_loss_preds r =
     (case r of
        Loss_Only loss \<Rightarrow> Inl TypeError
      | Loss_Logits loss logits \<Rightarrow> Inl IndexError
      | Loss_Preds_Logits loss preds logits \<Rightarrow> Inl ValueError)"

text \<open>
  Lines 237 to 240: the labels of the tokens, paired with the predictions; "O" and "_"
  are skipped. A token beyond the last prediction is left as it is.
\<close>

fun add_token_predictions :: "string \<Rightarrow> Token list \<Rightarrow> (string \<times> real) list \<Rightarrow> Token list" where
  "add_token_predictions label_name (token # ts) (label # ls) =
     (if fst label \<in> set [''O'', ''_''] then token
      else token_add_label label_name (fst label) (snd label) token)
     # add_token_predictions label_name ts ls"
| "add_token_predictions label_name ts ls = ts"

text \<open>
  Lines 228 to 233. The span decoder \<open>get_spans_from_bio\<close> belongs to the framework
  and is a parameter: it returns, for each span, the positions of its tokens, a score
  and a label.
\<close>

fun add_span_predictions ::
  "string \<Rightarrow> Sentence \<Rightarrow> (nat list \<times> real \<times> string) list \<Rightarrow> error + Sentence" where
  "add_span_predictions label_name s [] = Inr s"
| "add_span_predictions label_name s (predicted_span # rest) =
     (if fst predicted_span = [] then Inl IndexError
      else add_span_predictions label_name
             (span_add_label label_name (hd (fst predicted_span))
                (last (fst predicted_span) + 1) (snd (snd predicted_span))
                (fst (snd predicted_span)) s)
             rest)"

definition add_predictions ::
  "DualEncoder \<Rightarrow> (string list \<Rightarrow> real list \<Rightarrow> (nat list \<times> real \<times> string) list) \<Rightarrow> string \<Rightarrow>
     bool \<Rightarrow> Sentence \<times> (string \<times> real) list \<Rightarrow> error + Sentence" where
  "add_predictions m get_spans_from_bio label_name force_token_predictions sp =
     (let sentence = fst sp; sentence_predictions = snd sp in
      if predict_spans m \<and> \<not> force_token_predictions then
        add_span_predictions label_name sentence
          (get_spans_from_bio (map fst sentence_predictions) (map snd sentence_predictions))
      else
        Inr (sentence\<lparr>tokens :=
               add_token_predictions label_name (tokens sentence) sentence_predictions\<rparr>))"

text \<open>
  The body of the loop over the mini-batches. The state is the loss summed so far, the
  number of labels counted so far and the sentences already processed.
\<close>

definition predict_batch ::
  "DualEncoder \<Rightarrow> (string list \<Rightarrow> real list \<Rightarrow> (nat list \<times> real \<times> string) list) \<Rightarrow> string \<Rightarrow>
     bool \<Rightarrow> bool \<Rightarrow> real \<times> nat \<times> Sentence list \<Rightarrow> Sentence list \<Rightarrow>
     error + real \<times> nat \<times> Sentence list" where
  "predict_batch m get_spans_from_bio label_name return_loss force_token_predictions st batch =
     (if batch = [] then Inr st
      else
        let overall_loss = fst st; label_count = fst (snd st); processed = snd (snd st);
            batch' = map (remove_labels label_name) batch
        in bind (forward m batch' True False) (\<lambda>r.
           bind (unpack_loss_preds r) (\<lambda>lp.
           bind (mapM (add_predictions m get_spans_from_bio label_name force_token_predictions)
                   (zip batch' (snd lp))) (\<lambda>labelled.
             Inr (if return_loss then overall_loss + fst lp else overall_loss,
                  if return_loss then label_count + sum_list (map length (snd lp))
                  else label_count,
                  processed @ labelled @ drop (length (snd lp)) batch')))))"

fun predict_batches ::
  "DualEncoder \<Rightarrow> (string list \<Rightarrow> real list \<Rightarrow> (nat list \<times> real \<times> string) list) \<Rightarrow> string \<Rightarrow>
     bool \<Rightarrow> bool \<Rightarrow> real \<times> nat \<times> Sentence list \<Rightarrow> Sentence list list \<Rightarrow>
     error + real \<times> nat \<times> Sentence list" where
  "predict_batches m g label_name return_loss force st [] = Inr st"
| "predict_batches m g label_name return_loss force st (batch # rest) =
     bind (predict_batch m g label_name return_loss force st batch) (\<lambda>st'.
       predict_batches m g label_name return_loss force st' rest)"

text \<open>
  What \<open>predict\<close> returns: its argument (on an empty argument), nothing, or the summed
  loss and the label count. The sentences it has labelled are returned beside it.
\<close>

datatype predict_return =
    Return_Sentences
  | Return_None
  | Return_Loss real nat

definition predict ::
  "DualEncoder \<Rightarrow> (string list \<Rightarrow> real list \<Rightarrow> (nat list \<times> real \<times> string) list) \<Rightarrow>
     Sentence list \<Rightarrow> nat \<Rightarrow> string option \<Rightarrow> bool \<Rightarrow> bool \<Rightarrow>
     error + Sentence list \<times> predict_return" where
  "predict m get_spans_from_bio sentences mini_batch_size label_name return_loss
     force_token_predictions =
     (let label_name' = (case label_name of None \<Rightarrow> tag_type m | Some n \<Rightarrow> n) in
      if sentences = [] then Inr (sentences, Return_Sentences)
      else if length sentences = 0 then Inr (sentences, Return_Sentences)
      else
        let sentences' = filter (\<lambda>sentence. sentence_len sentence > 0) sentences in
        if mini_batch_size = 0 then Inl ValueError
        else
          bind (predict_batches m get_spans_from_bio label_name' return_loss
                  force_token_predictions (0, 0, []) (batches mini_batch_size sentences'))
            (\<lambda>st. Inr (snd (snd st),
                         if return_loss then Return_Loss (fst st) (fst (snd st))
                         else Return_None)))"

section \<open>The corpus selector\<close>

text \<open>
  The corpus classes belong to the framework; a corpus is the class selected with the
  arguments it is given. For "conll_03" the training split is then restricted to the
  sentences at \<open>valid_indices\<close>; the texts of the training sentences are a parameter.
\<close>

datatype Corpus =
    WNUT_17 "(string \<times> string) list"
  | CONLL_03 string "(nat \<times> string) list" "(string \<times> string) list" "nat list"
  | ONTONOTES "(string \<times> string) list"
  | FEWNERD "(string \<times> string) list"

definition wnut_17_map :: "(string \<times> string) list" where
  "wnut_17_map =
     [(''corporation'', ''corporation''),
      (''creative-work'', ''creative work''),
      (''group'', ''group''),
      (''location'', ''location''),
      (''person'', ''person''),
      (''product'', ''product'')]"

definition conll_03_map :: "(string \<times> string) list" where
  "conll_03_map =
     [(''PER'', ''person''),
      (''LOC'', ''location''),
      (''ORG'', ''organization''),
      (''MISC'', ''miscellaneous'')]"

definition ontonotes_map :: "(string \<times> string) list" where
  "ontonotes_map =
     [(''CARDINAL'', ''cardinal''),
      (''DATE'', ''date''),
      (''EVENT'', ''event''),
      (''FAC'', ''facility''),
      (''GPE'', ''geographical social political entity''),
      (''LANGUAGE'', ''language''),
      (''LAW'', ''law''),
      (''LOC'', ''location''),
      (''MONEY'', ''money''),
      (''NORP'', ''nationality religion political''),
      (''ORDINAL'', ''ordinal''),
      (''ORG'', ''organization''),
      (''PERCENT'', ''percent''),
      (''PERSON'', ''person''),
      (''PRODUCT'', ''product''),
      (''QUANTITY'', ''quantity''),
      (''TIME'', ''time''),
      (''WORK_OF_ART'', ''work of art'')]"

definition fewnerd_fine_map :: "(string \<times> string) list" where
  "fewnerd_fine_map =
     [(''location-GPE'', ''geographical social political entity''),
      (''person-other'', ''other person''),
      (''organization-other'', ''other organization''),
      (''organization-company'', ''company''),
      (''person-artist/author'', ''author artist''),
      (''person-athlete'', ''athlete''),
      (''person-politician'', ''politician''),
      (''building-other'', ''other building''),
      (''organization-sportsteam'', ''sportsteam''),
      (''organization-education'', ''eduction''),
      (''location-other'', ''other location''),
      (''other-biologything'', ''biology''),
      (''location-road/railway/highway/transit'', ''road railway highway transit''),
      (''person-actor'', ''actor''),
      (''product-other'', ''other product''),
      (''event-sportsevent'', ''sportsevent''),
      (''organization-government/governmentagency'', ''government agency''),
      (''location-bodiesofwater'', ''bodies of water''),
      (''organization-media/newspaper'', ''media newspaper''),
      (''art-music'', ''music''),
      (''other-chemicalthing'', ''chemical''),
      (''event-attack/battle/war/militaryconflict'', ''attack war battle military conflict''),
      (''organization-politicalparty'', ''political party''),
      (''art-writtenart'', ''written art''),
      (''other-award'', ''award''),
      (''other-livingthing'', ''living thing''),
      (''event-other'', ''other event''),
      (''art-film'', ''film''),
      (''product-software'', ''software''),
      (''organization-sportsleague'', ''sportsleague''),
      (''other-language'', ''language''),
      (''other-disease'', ''disease''),
      (''organization-showorganization'', ''show organization''),
      (''product-airplane'', ''airplane''),
      (''other-astronomything'', ''astronomy''),
      (''organization-religion'', ''religion''),
      (''product-car'', ''car''),
      (''person-scholar'', ''scholar''),
      (''other-currency'', ''currency''),
      (''person-soldier'', ''soldier''),
      (''location-mountain'', ''mountain''),
      (''art-broadcastprogram'', ''broadcastprogram''),
      (''location-island'', ''island''),
      (''art-other'', ''other art''),
      (''person-director'', ''director''),
      (''product-weapon'', ''weapon''),
      (''other-god'', ''god''),
      (''building-theater'', ''theater''),
      (''other-law'', ''law''),
      (''product-food'', ''food''),
      (''other-medical'', ''medical''),
      (''product-game'', ''game''),
      (''location-park'', ''park''),
      (''product-ship'', ''ship''),
      (''building-sportsfacility'', ''sportsfacility''),
      (''other-educationaldegree'', ''educational degree''),
      (''building-airport'', ''airport''),
      (''building-hospital'', ''hospital''),
      (''product-train'', ''train''),
      (''building-library'', ''library''),
      (''building-hotel'', ''hotel''),
      (''building-restaurant'', ''restaurant''),
      (''event-disaster'', ''disaster''),
      (''event-election'', ''election''),
      (''event-protest'', ''protest''),
      (''art-painting'', ''painting'')]"

definition fewnerd_coarse_map :: "(string \<times> string) list" where
  "fewnerd_coarse_map =
     [(''location-GPE'', ''location''),
      (''person-other'', ''person''),
      (''organization-other'', ''organization''),
      (''organization-company'', ''organization''),
      (''person-artist/author'', ''person''),
      (''person-athlete'', ''person''),
      (''person-politician'', ''person''),
      (''building-other'', ''building''),
      (''organization-sportsteam'', ''organization''),
      (''organization-education'', ''organization''),
      (''location-other'', ''location''),
      (''other-biologything'', ''biology''),
      (''location-road/railway/highway/transit'', ''location''),
      (''person-actor'', ''person''),
      (''product-other'', ''product''),
      (''event-sportsevent'', ''event''),
      (''organization-government/governmentagency'', ''organization''),
      (''location-bodiesofwater'', ''location''),
      (''organization-media/newspaper'', ''organization''),
      (''art-music'', ''art''),
      (''other-chemicalthing'', ''chemical''),
      (''event-attack/battle/war/militaryconflict'', ''event''),
      (''organization-politicalparty'', ''organization''),
      (''art-writtenart'', ''art''),
      (''other-award'', ''award''),
      (''other-livingthing'', ''living thing''),
      (''event-other'', ''event''),
      (''art-film'', ''art''),
      (''product-software'', ''product''),
      (''organization-sportsleague'', ''organization''),
      (''other-language'', ''language''),
      (''other-disease'', ''disease''),
      (''organization-showorganization'', ''organization''),
      (''product-airplane'', ''product''),
      (''other-astronomything'', ''astronomy''),
      (''organization-religion'', ''organization''),
      (''product-car'', ''product''),
      (''person-scholar'', ''person''),
      (''other-currency'', ''currency''),
      (''person-soldier'', ''person''),
      (''location-mountain'', ''location''),
      (''art-broadcastprogram'', ''art''),
      (''location-island'', ''location''),
      (''art-other'', ''art''),
      (''person-director'', ''person''),
      (''product-weapon'', ''product''),
      (''other-god'', ''god''),
      (''building-theater'', ''building''),
      (''other-law'', ''law''),
      (''product-food'', ''product''),
      (''other-medical'', ''medical''),
      (''product-game'', ''product''),
      (''location-park'', ''location''),
      (''product-ship'', ''product''),
      (''building-sportsfacility'', ''building''),
      (''other-educationaldegree'', ''educational degree''),
      (''building-airport'', ''building''),
      (''building-hospital'', ''building''),
      (''product-train'', ''product''),
      (''building-library'', ''building''),
      (''building-hotel'', ''building''),
      (''building-restaurant'', ''building''),
      (''event-disaster'', ''event''),
      (''event-election'', ''event''),
      (''event-protest'', ''event''),
      (''art-painting'', ''art'')]"

definition valid_indices :: "string list \<Rightarrow> nat list" where
  "valid_indices train_texts =
     map fst (filter (\<lambda>p. \<not> sublist ''DOCSTART'' (snd p))
                (zip [0..<length train_texts] train_texts))"

text \<open>
  \<open>get_corpus\<close>: a function that ends without \<open>return\<close> returns \<open>None\<close>, here
  \<open>Inr None\<close>.
\<close>

definition get_corpus :: "string list \<Rightarrow> string \<Rightarrow> string \<Rightarrow> error + Corpus option" where
  "get_corpus conll_train_texts corpus fewnerd_granularity =
     (if corpus = ''wnut_17'' then Inr (Some (WNUT_17 wnut_17_map))
      else if corpus = ''conll_03'' then
        Inr (Some (CONLL_03 ''data'' [(0, ''text''), (1, ''pos''), (2, ''chunk''), (3, ''ner'')]
                     conll_03_map (valid_indices conll_train_texts)))
      else if corpus = ''ontonotes'' then Inr (Some (ONTONOTES ontonotes_map))
      else if corpus = ''fewnerd'' then
        (if fewnerd_granularity = ''fine'' then Inr (Some (FEWNERD fewnerd_fine_map))
         else if fewnerd_granularity = ''coarse'' then Inr (Some (FEWNERD fewnerd_coarse_map))
         else Inr None)
      else Inl (Exception ''no valid corpus.''))"

text \<open>The items one base label contributes to the expanded dictionary.\<close>

definition variants :: "string \<Rightarrow> string \<Rightarrow> string set" where
  "variants fmt l =
     (if l = ''<unk>'' then {}
      else {''O''} \<union>
        (if fmt = ''BIOES'' then {''S-'' @ l, ''B-'' @ l, ''E-'' @ l, ''I-'' @ l} else {}) \<union>
        (if fmt = ''BIO'' then {''B-'' @ l, ''I-'' @ l} else {}))"

section \<open>Concrete inputs\<close>

text \<open>
  Two constant encoders, a span-level tag dictionary with two base labels, the two
  models the constructor builds from it, and a sentence of five tokens with a span
  over tokens 2 to 4 and a span over token 5.
\<close>

definition unit_token_encoder :: "Sentence \<Rightarrow> nat \<Rightarrow> real list" where
  "unit_token_encoder s i = [1]"

definition unit_label_encoder :: "string \<Rightarrow> real list" where
  "unit_label_encoder p = [1]"

definition example_tag_dictionary :: Dictionary where
  "example_tag_dictionary =
     \<lparr>idx2item = [''<unk>'', ''person'', ''location''], add_unk = True, span_labels = True\<rparr>"

definition example_bioes_model :: DualEncoder where
  "example_bioes_model =
     \<lparr>tag_type = ''ner'', tag_format = ''BIOES'',
      label_dictionary =
        \<lparr>idx2item = [''O'', ''S-person'', ''B-person'', ''E-person'', ''I-person'',
                     ''S-location'', ''B-location'', ''E-location'', ''I-location''],
         add_unk = False, span_labels = False\<rparr>,
      predict_spans = True,
      idx2verbalized_label =
        [(0, ''other''), (2, ''begin person''), (4, ''inside person''),
         (6, ''begin location''), (8, ''inside location'')],
      tagset_size = 9,
      token_encoder = unit_token_encoder, label_encoder = unit_label_encoder,
      use_dropout = 0\<rparr>"

definition example_bio_model :: DualEncoder where
  "example_bio_model =
     \<lparr>tag_type = ''ner'', tag_format = ''BIO'',
      label_dictionary =
        \<lparr>idx2item = [''O'', ''B-person'', ''I-person'', ''B-location'', ''I-location''],
         add_unk = False, span_labels = False\<rparr>,
      predict_spans = True,
      idx2verbalized_label =
        [(0, ''other''), (1, ''begin person''), (2, ''inside person''),
         (3, ''begin location''), (4, ''inside location'')],
      tagset_size = 5,
      token_encoder = unit_token_encoder, label_encoder = unit_label_encoder,
      use_dropout = 0\<rparr>"

definition example_token :: "int \<Rightarrow> Token" where
  "example_token i = \<lparr>token_text = ''w'', idx = i, annotation_layers = []\<rparr>"

definition example_sentence :: Sentence where
  "example_sentence =
     \<lparr>tokens = [example_token 1, example_token 2, example_token 3, example_token 4,
                example_token 5],
      span_annotations =
        [(''ner'', [example_token 2, example_token 3, example_token 4], ''person'', 1),
         (''ner'', [example_token 5], ''location'', 1)]\<rparr>"

section \<open>The encoding of spans, as the specification words it\<close>







section \<open>Reading a label back from a phrase\<close>

text \<open>
  Modelled from the spec: no function of the source reads a base label back from a
  verbalized phrase. The spec words the phrase as "prefix to word, suffix to label
  text", so the label read back is the text after the first word and its space.
\<close>

definition rederive_label :: "string \<Rightarrow> string" where
  "rederive_label phrase = drop 1 (dropWhile (\<lambda>c. c \<noteq> CHR '' '') phrase)"

text \<open>The tags the verbalizer gives a phrase to.\<close>

definition verbalized :: "string \<Rightarrow> bool" where
  "verbalized label \<longleftrightarrow> label = ''O'' \<or> startswith label ''B-'' \<or> startswith label ''I-''"

text \<open>A span decoder that finds no span, for evaluating \<open>predict\<close>.\<close>

definition no_spans :: "string list \<Rightarrow> real list \<Rightarrow> (nat list \<times> real \<times> string) list" where
  "no_spans tags scores = []"

section \<open>Properties of the label space builder\<close>

lemma DualEncoder_init_unfold:
  "DualEncoder_init up te le td ty fmt dr =
     bind (init_label_dictionary (up fmt) td) (\<lambda>ld.
       bind (init_verbalizers (item2idx_items ld)) (\<lambda>vs.
         if 1 < dr then Inl ValueError
         else
           Inr \<lparr>tag_type = ty, tag_format = up fmt, label_dictionary = ld,
                predict_spans = span_labels td, idx2verbalized_label = vs,
                tagset_size = dict_len ld, token_encoder = te, label_encoder = le,
                use_dropout = dr\<rparr>))"
  by (auto simp: DualEncoder_init_def init_verbalizers_and_tag_dictionary_def bind_def
      split: sum.splits)

lemma add_item_set: "set (idx2item (add_item d x)) = insert x (set (idx2item d))"
  by (auto simp: add_item_def)

lemma add_item_distinct: "distinct (idx2item d) \<Longrightarrow> distinct (idx2item (add_item d x))"
  by (auto simp: add_item_def)

lemma expand_label_set:
  "set (idx2item (expand_label fmt d l)) = set (idx2item d) \<union> variants fmt l"
  by (auto simp: expand_label_def add_item_set Let_def variants_def)

lemma expand_label_distinct:
  "distinct (idx2item d) \<Longrightarrow> distinct (idx2item (expand_label fmt d l))"
  by (auto simp: expand_label_def Let_def intro!: add_item_distinct)

lemma foldl_expand_set:
  "set (idx2item (foldl (expand_label fmt) d ls)) = set (idx2item d) \<union> (\<Union>l\<in>set ls. variants fmt l)"
  by (induction ls arbitrary: d) (auto simp: expand_label_set)

lemma foldl_expand_distinct:
  "distinct (idx2item d) \<Longrightarrow> distinct (idx2item (foldl (expand_label fmt) d ls))"
  by (induction ls arbitrary: d) (auto simp: expand_label_distinct)

lemma variants_Union_BIOES:
  "(\<Union>l\<in>L. variants ''BIOES'' l) =
     (if L - {''<unk>''} = {} then {} else {''O''}) \<union> (@) ''S-'' ` (L - {''<unk>''}) \<union> (@) ''B-'' ` (L - {''<unk>''})
       \<union> (@) ''E-'' ` (L - {''<unk>''}) \<union> (@) ''I-'' ` (L - {''<unk>''})"
  by (auto simp: variants_def)

lemma variants_Union_BIO:
  "(\<Union>l\<in>L. variants ''BIO'' l) =
     (if L - {''<unk>''} = {} then {} else {''O''}) \<union> (@) ''B-'' ` (L - {''<unk>''}) \<union> (@) ''I-'' ` (L - {''<unk>''})"
  by (auto simp: variants_def)

lemma card_prefixed: "card ((@) p ` L) = card L"
  by (rule card_image) (simp add: inj_on_def)

lemma split_on_nonempty: "split_on c s \<noteq> []"
  by (induction s) auto

lemma card_BIOES:
  assumes "finite L"
  shows "card ({''O''} \<union> (@) ''S-'' ` L \<union> (@) ''B-'' ` L \<union> (@) ''E-'' ` L \<union> (@) ''I-'' ` L) = 1 + 4 * card L"
proof -
  define S where "S = (@) ''S-'' ` L"
  define B where "B = (@) ''B-'' ` L"
  define E where "E = (@) ''E-'' ` L"
  define I where "I = (@) ''I-'' ` L"
  have fin: "finite S" "finite B" "finite E" "finite I"
    using assms by (simp_all add: S_def B_def E_def I_def)
  have cards: "card S = card L" "card B = card L" "card E = card L" "card I = card L"
    unfolding S_def B_def E_def I_def by (rule card_prefixed)+
  have d1: "{''O''} \<inter> S = {}" by (auto simp: S_def)
  have d2: "({''O''} \<union> S) \<inter> B = {}" by (auto simp: S_def B_def)
  have d3: "({''O''} \<union> S \<union> B) \<inter> E = {}" by (auto simp: S_def B_def E_def)
  have d4: "({''O''} \<union> S \<union> B \<union> E) \<inter> I = {}" by (auto simp: S_def B_def E_def I_def)
  have "card ({''O''} \<union> S \<union> B \<union> E \<union> I) = card ({''O''} \<union> S \<union> B \<union> E) + card I"
    using fin d4 by (intro card_Un_disjoint) auto
  also have "card ({''O''} \<union> S \<union> B \<union> E) = card ({''O''} \<union> S \<union> B) + card E"
    using fin d3 by (intro card_Un_disjoint) auto
  also have "card ({''O''} \<union> S \<union> B) = card ({''O''} \<union> S) + card B"
    using fin d2 by (intro card_Un_disjoint) auto
  also have "card ({''O''} \<union> S) = card {''O''} + card S"
    using fin d1 by (intro card_Un_disjoint) auto
  finally show ?thesis
    unfolding S_def [symmetric] B_def [symmetric] E_def [symmetric] I_def [symmetric]
    by (simp add: cards)
qed

lemma card_BIO:
  assumes "finite L"
  shows "card ({''O''} \<union> (@) ''B-'' ` L \<union> (@) ''I-'' ` L) = 1 + 2 * card L"
proof -
  define B where "B = (@) ''B-'' ` L"
  define I where "I = (@) ''I-'' ` L"
  have fin: "finite B" "finite I"
    using assms by (simp_all add: B_def I_def)
  have cards: "card B = card L" "card I = card L"
    unfolding B_def I_def by (rule card_prefixed)+
  have d1: "{''O''} \<inter> B = {}" by (auto simp: B_def)
  have d2: "({''O''} \<union> B) \<inter> I = {}" by (auto simp: B_def I_def)
  have "card ({''O''} \<union> B \<union> I) = card ({''O''} \<union> B) + card I"
    using fin d2 by (intro card_Un_disjoint) auto
  also have "card ({''O''} \<union> B) = card {''O''} + card B"
    using fin d1 by (intro card_Un_disjoint) auto
  finally show ?thesis
    unfolding B_def [symmetric] I_def [symmetric]
    by (simp add: cards)
qed

lemma verbalize_ok: "\<exists>v. verbalize l = Inr v"
  by (auto simp: verbalize_def startswith_def bind_def py_get_def prefix_def split_on_nonempty)

lemma init_verbalizers_ok: "\<exists>vs. init_verbalizers xs = Inr vs"
proof (induction xs)
  case Nil
  show ?case by simp
next
  case (Cons x xs)
  obtain l i where x: "x = (l, i)" by (cases x)
  obtain v where v: "verbalize l = Inr v" using verbalize_ok by blast
  from Cons obtain vs where vs: "init_verbalizers xs = Inr vs" by blast
  show ?case by (simp add: x v vs bind_def)
qed

lemma DualEncoder_init_ok:
  assumes "init_label_dictionary (up fmt) td = Inr ld" and "dr \<le> 1"
  shows "\<exists>vs. DualEncoder_init up te le td ty fmt dr =
     Inr \<lparr>tag_type = ty, tag_format = up fmt, label_dictionary = ld,
          predict_spans = span_labels td, idx2verbalized_label = vs,
          tagset_size = dict_len ld, token_encoder = te, label_encoder = le,
          use_dropout = dr\<rparr>"
proof -
  obtain vs where "init_verbalizers (item2idx_items ld) = Inr vs"
    using init_verbalizers_ok by blast
  then show ?thesis
    using assms(2) by (simp add: DualEncoder_init_unfold assms(1) bind_def)
qed

text \<open>
  What an accepted construction has built: the label dictionary is the one
  \<open>init_label_dictionary\<close> returns, and the tagset size is its length.
\<close>

lemma DualEncoder_init_Inr:
  assumes "DualEncoder_init up te le td ty fmt dr = Inr m"
  shows "init_label_dictionary (up fmt) td = Inr (label_dictionary m)"
    and "tagset_size m = dict_len (label_dictionary m)"
    and "init_verbalizers (item2idx_items (label_dictionary m)) = Inr (idx2verbalized_label m)"
    and "dr \<le> 1"
  using assms
  by (auto simp: DualEncoder_init_unfold bind_def split: sum.splits if_splits)

lemma expanded_size:
  assumes "fmt = ''BIOES'' \<or> fmt = ''BIO''"
    and "set ls - {''<unk>''} \<noteq> {}"
  shows "length (idx2item (foldl (expand_label fmt) (Dictionary_init False) ls)) =
     1 + (if fmt = ''BIOES'' then 4 else 2) * card (set ls - {''<unk>''})"
proof -
  let ?d = "foldl (expand_label fmt) (Dictionary_init False) ls"
  have dist: "distinct (idx2item ?d)"
    by (rule foldl_expand_distinct) (simp add: Dictionary_init_def)
  have len: "length (idx2item ?d) = card (set (idx2item ?d))"
    using dist by (simp add: distinct_card)
  have st: "set (idx2item ?d) = (\<Union>l\<in>set ls. variants fmt l)"
    by (simp add: foldl_expand_set Dictionary_init_def)
  have fin: "finite (set ls - {''<unk>''})" by simp
  show ?thesis
  proof (cases "fmt = ''BIOES''")
    case True
    have "(\<Union>l\<in>set ls. variants ''BIOES'' l) =
        {''O''} \<union> (@) ''S-'' ` (set ls - {''<unk>''}) \<union> (@) ''B-'' ` (set ls - {''<unk>''})
          \<union> (@) ''E-'' ` (set ls - {''<unk>''}) \<union> (@) ''I-'' ` (set ls - {''<unk>''})"
      using assms(2) by (simp only: variants_Union_BIOES if_False)
    then have "card (\<Union>l\<in>set ls. variants ''BIOES'' l) = 1 + 4 * card (set ls - {''<unk>''})"
      by (simp only: card_BIOES [OF fin])
    with len st show ?thesis
      by (simp add: True)
  next
    case False
    with assms(1) have bio: "fmt = ''BIO''" by simp
    have "(\<Union>l\<in>set ls. variants ''BIO'' l) =
        {''O''} \<union> (@) ''B-'' ` (set ls - {''<unk>''}) \<union> (@) ''I-'' ` (set ls - {''<unk>''})"
      using assms(2) by (simp only: variants_Union_BIO if_False)
    then have "card (\<Union>l\<in>set ls. variants ''BIO'' l) = 1 + 2 * card (set ls - {''<unk>''})"
      by (simp only: card_BIO [OF fin])
    with len st show ?thesis
      by (simp add: bio)
  qed
qed

text \<open>The upper-casing of the format strings used below.\<close>

lemma ascii_upper_simps:
  "ascii_upper ''bioes'' = ''BIOES''" "ascii_upper ''bio'' = ''BIO''" "ascii_upper ''BIOES'' = ''BIOES''"
  "ascii_upper ''BIO'' = ''BIO''" "ascii_upper ''XYZ'' = ''XYZ''"
  by code_simp+

text \<open>The two example models are what the constructor builds.\<close>

lemma example_bioes_model_init:
  "DualEncoder_init ascii_upper unit_token_encoder unit_label_encoder example_tag_dictionary ''ner'' ''bioes'' 0
     = Inr example_bioes_model"
  by (simp add: DualEncoder_init_unfold init_label_dictionary_def ascii_upper_simps bind_def get_items_def
      expand_label_def add_item_def Dictionary_init_def item2idx_items_def dict_len_def
      verbalize_def startswith_def py_get_def example_tag_dictionary_def example_bioes_model_def)

lemma example_bio_model_init:
  "DualEncoder_init ascii_upper unit_token_encoder unit_label_encoder example_tag_dictionary ''ner'' ''bio'' 0
     = Inr example_bio_model"
  by (simp add: DualEncoder_init_unfold init_label_dictionary_def ascii_upper_simps bind_def get_items_def
      expand_label_def add_item_def Dictionary_init_def item2idx_items_def dict_len_def
      verbalize_def startswith_def py_get_def example_tag_dictionary_def example_bio_model_def)

section \<open>The size of the expanded dictionary\<close>

text \<open>
  A span-level dictionary with a supported format and a dropout of at most 1 is
  accepted.
\<close>

lemma construction_accepts:
  assumes "span_labels td"
    and "up fmt = ''BIOES'' \<or> up fmt = ''BIO''"
    and "dr \<le> 1"
  shows "\<exists>m. DualEncoder_init up te le td ty fmt dr = Inr m"
proof -
  have "init_label_dictionary (up fmt) td =
      Inr (foldl (expand_label (up fmt)) (Dictionary_init False) (get_items td))"
    using assms(1,2) by (auto simp: init_label_dictionary_def)
  from DualEncoder_init_ok [where up = up and fmt = fmt, OF this assms(3), of te le ty]
  show ?thesis by blast
qed

text \<open>
  C3, as the code has it: for every span-level tag dictionary with \<open>n \<ge> 1\<close> distinct
  base labels (the unknown sentinel excluded), the expanded label dictionary of the
  model built at construction has exactly \<open>1 + 4 * n\<close> entries when the format is
  BIOES after case normalization and \<open>1 + 2 * n\<close> entries when it is BIO; the tagset
  size is that number.
\<close>

theorem expanded_dictionary_size:
  assumes "span_labels td"
    and "up fmt = ''BIOES'' \<or> up fmt = ''BIO''"
    and "0 < card (set (get_items td) - {''<unk>''})"
    and "DualEncoder_init up te le td ty fmt dr = Inr m"
  shows "tagset_size m = dict_len (label_dictionary m)
         \<and> dict_len (label_dictionary m) =
             1 + (if up fmt = ''BIOES'' then 4 else 2) * card (set (get_items td) - {''<unk>''})"
proof -
  let ?ld = "foldl (expand_label (up fmt)) (Dictionary_init False) (get_items td)"
  have ne: "set (get_items td) - {''<unk>''} \<noteq> {}"
    using assms(3) by (metis card.empty less_numeral_extra(3))
  have "init_label_dictionary (up fmt) td = Inr ?ld"
    using assms(1,2) by (auto simp: init_label_dictionary_def)
  with DualEncoder_init_Inr(1) [OF assms(4)] have ld: "label_dictionary m = ?ld"
    by simp
  have sz: "dict_len ?ld =
      1 + (if up fmt = ''BIOES'' then 4 else 2) * card (set (get_items td) - {''<unk>''})"
    unfolding dict_len_def using expanded_size [OF assms(2) ne] .
  show ?thesis
    using DualEncoder_init_Inr(2) [OF assms(4)] sz by (simp add: ld)
qed

theorem expanded_dictionary_size_witness:
  "span_labels example_tag_dictionary
   \<and> ascii_upper ''bioes'' = ''BIOES''
   \<and> card (set (get_items example_tag_dictionary) - {''<unk>''}) = 2
   \<and> DualEncoder_init ascii_upper unit_token_encoder unit_label_encoder example_tag_dictionary
         ''ner'' ''bioes'' 0 = Inr example_bioes_model
   \<and> tagset_size example_bioes_model = dict_len (label_dictionary example_bioes_model)
   \<and> dict_len (label_dictionary example_bioes_model) = 9"
proof -
  have h1: "span_labels example_tag_dictionary"
    by (simp add: example_tag_dictionary_def)
  have h2: "ascii_upper ''bioes'' = ''BIOES'' \<or> ascii_upper ''bioes'' = ''BIO''"
    by (simp add: ascii_upper_simps)
  have n: "card (set (get_items example_tag_dictionary) - {''<unk>''}) = 2"
    by (simp add: example_tag_dictionary_def get_items_def)
  then have h3: "0 < card (set (get_items example_tag_dictionary) - {''<unk>''})"
    by simp
  note h4 = example_bioes_model_init
  from expanded_dictionary_size [where up = ascii_upper and fmt = "''bioes''", OF h1 h2 h3 h4]
  show ?thesis using h1 n h4 by (simp add: ascii_upper_simps)
qed

text \<open>
  C3 as stated fails for \<open>n = 0\<close>: "O" is added inside the loop over the base labels,
  so a span-level dictionary that holds only the unknown sentinel expands to an empty
  dictionary, not to one entry.
\<close>

theorem expanded_dictionary_size_counterexample:
  "\<not> isl (DualEncoder_init ascii_upper unit_token_encoder unit_label_encoder
       \<lparr>idx2item = [''<unk>''], add_unk = True, span_labels = True\<rparr> ''ner'' ''BIOES'' 0)
   \<and> dict_len (label_dictionary (projr (DualEncoder_init ascii_upper unit_token_encoder unit_label_encoder
       \<lparr>idx2item = [''<unk>''], add_unk = True, span_labels = True\<rparr> ''ner'' ''BIOES'' 0)))
     \<noteq> 1 + 4 * card (set (get_items
         \<lparr>idx2item = [''<unk>''], add_unk = True, span_labels = True\<rparr>) - {''<unk>''})"
  by (simp add: DualEncoder_init_unfold init_label_dictionary_def ascii_upper_simps bind_def get_items_def
      expand_label_def Dictionary_init_def item2idx_items_def dict_len_def)

section \<open>Unsupported formats\<close>

text \<open>
  C5, as the code has it: for every span-level tag dictionary, a format string that is
  neither BIO nor BIOES after case normalization (by \<open>up\<close>, the library's
  \<open>str.upper\<close>) is rejected at construction, by the assertion, whatever the other
  arguments are.
\<close>

theorem unsupported_format_rejected:
  assumes "span_labels td"
    and "up fmt \<notin> {''BIO'', ''BIOES''}"
  shows "DualEncoder_init up te le td ty fmt dr = Inl AssertionError"
  using assms by (simp add: DualEncoder_init_unfold init_label_dictionary_def bind_def)

theorem unsupported_format_rejected_witness:
  "span_labels example_tag_dictionary
   \<and> ascii_upper ''XYZ'' \<notin> {''BIO'', ''BIOES''}
   \<and> DualEncoder_init ascii_upper unit_token_encoder unit_label_encoder example_tag_dictionary
         ''ner'' ''XYZ'' 0 = Inl AssertionError"
proof -
  have h1: "span_labels example_tag_dictionary"
    by (simp add: example_tag_dictionary_def)
  have h2: "ascii_upper ''XYZ'' \<notin> {''BIO'', ''BIOES''}"
    by (simp add: ascii_upper_simps)
  from unsupported_format_rejected [where up = ascii_upper and fmt = "''XYZ''", OF h1 h2,
      of unit_token_encoder unit_label_encoder "''ner''" 0]
  show ?thesis using h1 h2 by simp
qed

text \<open>
  C5 as stated fails for a flat tag dictionary: the assertion is inside the span-level
  branch, so a flat dictionary is accepted with any format string.
\<close>

theorem unsupported_format_flat_counterexample:
  "ascii_upper ''XYZ'' \<notin> {''BIO'', ''BIOES''}
   \<and> DualEncoder_init ascii_upper unit_token_encoder unit_label_encoder
       \<lparr>idx2item = [''<unk>'', ''PER''], add_unk = True, span_labels = False\<rparr> ''ner'' ''XYZ'' 0
     = Inr \<lparr>tag_type = ''ner'', tag_format = ''XYZ'',
            label_dictionary =
              \<lparr>idx2item = [''<unk>'', ''PER''], add_unk = True, span_labels = False\<rparr>,
            predict_spans = False, idx2verbalized_label = [], tagset_size = 2,
            token_encoder = unit_token_encoder, label_encoder = unit_label_encoder,
            use_dropout = 0\<rparr>"
  by (simp add: DualEncoder_init_unfold init_label_dictionary_def ascii_upper_simps bind_def
      item2idx_items_def dict_len_def verbalize_def startswith_def)

section \<open>The item "O"\<close>

text \<open>
  C6, as the code has it: for every span-level tag dictionary with at least one base
  label other than the unknown sentinel, the expanded label dictionary of a model that
  construction accepts contains "O".
\<close>

theorem expanded_dictionary_contains_O:
  assumes "span_labels td"
    and "set (get_items td) - {''<unk>''} \<noteq> {}"
    and "DualEncoder_init up te le td ty fmt dr = Inr m"
  shows "''O'' \<in> set (get_items (label_dictionary m))"
proof -
  from assms(3) obtain ld where ld: "init_label_dictionary (up fmt) td = Inr ld"
    and m: "label_dictionary m = ld"
    by (auto simp: DualEncoder_init_unfold bind_def split: sum.splits if_splits)
  from ld assms(1) have "ld = foldl (expand_label (up fmt)) (Dictionary_init False) (get_items td)"
    by (auto simp: init_label_dictionary_def split: if_splits)
  then have "set (idx2item ld) = (\<Union>l\<in>set (get_items td). variants (up fmt) l)"
    by (simp add: foldl_expand_set Dictionary_init_def)
  moreover from assms(2) obtain l where "l \<in> set (get_items td)" "l \<noteq> ''<unk>''" by auto
  then have "''O'' \<in> (\<Union>l\<in>set (get_items td). variants (up fmt) l)"
    by (auto simp: variants_def)
  ultimately show ?thesis by (simp add: m get_items_def)
qed

theorem expanded_dictionary_contains_O_witness:
  "span_labels example_tag_dictionary
   \<and> set (get_items example_tag_dictionary) - {''<unk>''} \<noteq> {}
   \<and> DualEncoder_init ascii_upper unit_token_encoder unit_label_encoder example_tag_dictionary
         ''ner'' ''bio'' 0 = Inr example_bio_model
   \<and> ''O'' \<in> set (get_items (label_dictionary example_bio_model))"
proof -
  have h1: "span_labels example_tag_dictionary"
    by (simp add: example_tag_dictionary_def)
  have h2: "set (get_items example_tag_dictionary) - {''<unk>''} \<noteq> {}"
    by (simp add: example_tag_dictionary_def get_items_def)
  note h3 = example_bio_model_init
  from expanded_dictionary_contains_O [OF h1 h2 h3]
  show ?thesis using h1 h2 h3 by simp
qed

text \<open>
  C6 as stated fails for a flat tag dictionary: it is taken over as it is, with or
  without an item "O".
\<close>

theorem flat_dictionary_without_O_counterexample:
  "DualEncoder_init ascii_upper unit_token_encoder unit_label_encoder
       \<lparr>idx2item = [''<unk>'', ''PER'', ''LOC''], add_unk = True, span_labels = False\<rparr>
       ''ner'' ''BIO'' 0
     = Inr \<lparr>tag_type = ''ner'', tag_format = ''BIO'',
            label_dictionary =
              \<lparr>idx2item = [''<unk>'', ''PER'', ''LOC''], add_unk = True, span_labels = False\<rparr>,
            predict_spans = False, idx2verbalized_label = [], tagset_size = 3,
            token_encoder = unit_token_encoder, label_encoder = unit_label_encoder,
            use_dropout = 0\<rparr>
   \<and> ''O'' \<notin> set (get_items
        \<lparr>idx2item = [''<unk>'', ''PER'', ''LOC''], add_unk = True, span_labels = False\<rparr>)"
  by (simp add: DualEncoder_init_unfold init_label_dictionary_def ascii_upper_simps bind_def
      item2idx_items_def dict_len_def verbalize_def startswith_def get_items_def)

section \<open>The empty batch\<close>

text \<open>
  C7: on an empty list of sentences \<open>forward_loss\<close> returns the loss 0.0 and the token
  count 0, and raises nothing.
\<close>

theorem forward_loss_empty_batch: "forward_loss m [] = Inr (Loss_Only 0, 0)"
  by (simp add: forward_loss_def)

section \<open>The corpus selector's failures\<close>

text \<open>
  C9: for every corpus name outside "wnut_17", "conll_03", "ontonotes" and "fewnerd",
  \<open>get_corpus\<close> raises the generic exception and returns no corpus.
\<close>

theorem unknown_corpus_raises:
  assumes "corpus \<notin> {''wnut_17'', ''conll_03'', ''ontonotes'', ''fewnerd''}"
  shows "get_corpus train corpus granularity = Inl (Exception ''no valid corpus.'')"
  using assms by (simp add: get_corpus_def)

theorem unknown_corpus_raises_witness:
  "''conll_2003'' \<notin> {''wnut_17'', ''conll_03'', ''ontonotes'', ''fewnerd''}
   \<and> get_corpus [] ''conll_2003'' ''fine'' = Inl (Exception ''no valid corpus.'')"
proof -
  have h: "''conll_2003'' \<notin> {''wnut_17'', ''conll_03'', ''ontonotes'', ''fewnerd''}"
    by simp
  from unknown_corpus_raises [OF h, of "[]" "''fine''"]
  show ?thesis using h by simp
qed

text \<open>
  C10: for the corpus name "fewnerd" and every granularity other than "fine" and
  "coarse", \<open>get_corpus\<close> returns \<open>None\<close> and raises nothing.
\<close>

theorem fewnerd_other_granularity_returns_None:
  assumes "granularity \<notin> {''fine'', ''coarse''}"
  shows "get_corpus train ''fewnerd'' granularity = Inr None"
  using assms by (simp add: get_corpus_def)

theorem fewnerd_other_granularity_returns_None_witness:
  "''medium'' \<notin> {''fine'', ''coarse''}
   \<and> get_corpus [] ''fewnerd'' ''medium'' = Inr None"
proof -
  have h: "''medium'' \<notin> {''fine'', ''coarse''}"
    by simp
  from fewnerd_other_granularity_returns_None [OF h, of "[]"]
  show ?thesis using h by simp
qed

section \<open>Gold labels: the encoding of spans\<close>










section \<open>The verbalizer\<close>

text \<open>
  For a base label without a hyphen the phrase of a "B-" or "I-" tag ends in the
  label, and the label can be read back from it.
\<close>

lemma split_on_no_sep: "c \<notin> set s \<Longrightarrow> split_on c s = [s]"
  by (induction s) auto

lemma verbalize_B: "CHR ''-'' \<notin> set l \<Longrightarrow> verbalize (''B-'' @ l) = Inr (Some (''begin '' @ l))"
  by (simp add: verbalize_def startswith_def bind_def py_get_def split_on_no_sep)

lemma verbalize_I: "CHR ''-'' \<notin> set l \<Longrightarrow> verbalize (''I-'' @ l) = Inr (Some (''inside '' @ l))"
  by (simp add: verbalize_def startswith_def bind_def py_get_def split_on_no_sep)

lemma round_trip_hyphen_free:
  assumes "CHR ''-'' \<notin> set l"
  shows "\<exists>p. verbalize (''B-'' @ l) = Inr (Some p) \<and> rederive_label p = l"
    and "\<exists>p. verbalize (''I-'' @ l) = Inr (Some p) \<and> rederive_label p = l"
  using verbalize_B [OF assms] verbalize_I [OF assms] by (simp_all add: rederive_label_def)

lemma rederive_hyphenated: "rederive_label ''begin creative'' = ''creative''"
  by (simp add: rederive_label_def)

text \<open>
  C2: verbalizing an expanded tag and reading the base label back recovers the label.
  The code breaks this in two places. The phrase takes only the second segment of the
  tag split at "-", so the tag of the label "creative-work" gets the phrase
  "begin creative", the same phrase as the tag of "creative-writing", and the label read
  back is "creative". And under BIOES the "S-" and "E-" tags get no phrase at all.
\<close>

theorem verbalize_round_trip_fails:
  "verbalize ''B-creative-work'' = Inr (Some ''begin creative'')
   \<and> verbalize ''B-creative-writing'' = Inr (Some ''begin creative'')
   \<and> verbalize ''I-creative-work'' = Inr (Some ''inside creative'')
   \<and> verbalize ''S-person'' = Inr None
   \<and> verbalize ''E-person'' = Inr None"
  by (simp add: verbalize_def startswith_def bind_def py_get_def)

section \<open>The shape of the logits\<close>

text \<open>
  The logits have one row per token of the batch and one column per verbalized label.
  Under BIO every tag of the expanded dictionary is verbalized, so the columns are the
  tagset; under BIOES only "O", the "B-" and the "I-" tags are, which is \<open>1 + 2 * n\<close>
  columns against a tagset of \<open>1 + 4 * n\<close>.
\<close>

lemma verbalize_Some_iff:
  "verbalize l = Inr v \<Longrightarrow> (v \<noteq> None) = verbalized l"
  by (auto simp: verbalize_def verbalized_def bind_def split: sum.splits if_splits)

lemma init_verbalizers_length:
  "init_verbalizers xs = Inr vs \<Longrightarrow> length vs = length (filter verbalized (map fst xs))"
proof (induction xs arbitrary: vs)
  case Nil
  then show ?case by simp
next
  case (Cons x xs)
  obtain l i where x: "x = (l, i)" by (cases x)
  from Cons.prems obtain v vs' where v: "verbalize l = Inr v"
    and vs': "init_verbalizers xs = Inr vs'"
    and vs: "vs = (case v of None \<Rightarrow> vs' | Some p \<Rightarrow> (i, p) # vs')"
    by (auto simp: x bind_def split: sum.splits)
  from Cons.IH [OF vs'] verbalize_Some_iff [OF v] show ?case
    by (cases v) (auto simp: x vs)
qed

lemma init_verbalized_count:
  assumes "DualEncoder_init up te le td ty fmt dr = Inr m"
  shows "length (idx2verbalized_label m) = length (filter verbalized (idx2item (label_dictionary m)))"
proof -
  from assms obtain ld vs where "init_verbalizers (item2idx_items ld) = Inr vs"
    and "label_dictionary m = ld" and "idx2verbalized_label m = vs"
    by (auto simp: DualEncoder_init_unfold bind_def split: sum.splits if_splits)
  with init_verbalizers_length [of "item2idx_items ld" vs] show ?thesis
    by (simp add: item2idx_items_def)
qed

lemma all_tokens_in_batch_length:
  "length (all_tokens_in_batch ss) = sum_list (map sentence_len ss)"
  by (induction ss) (simp_all add: all_tokens_in_batch_def)

lemma logits_shape:
  assumes "compute_logits m ss = Inr logits"
  shows "shape logits = (sum_list (map sentence_len ss), length (idx2verbalized_label m))"
proof -
  let ?a = "map (\<lambda>t. token_encoder m (fst t) (snd t)) (all_tokens_in_batch ss)"
  let ?b = "map (label_encoder m) (map snd (idx2verbalized_label m))"
  from assms have a: "?a \<noteq> []" and lg: "logits = map (\<lambda>r. map (dot r) ?b) ?a"
    by (auto simp: compute_logits_def bind_def torch_stack_def torch_mm_T_def
        split: sum.splits if_splits)
  from a have "hd (map (\<lambda>r. map (dot r) ?b) ?a) = map (dot (hd ?a)) ?b"
    by (simp add: hd_map)
  with lg show ?thesis
    by (simp add: shape_def all_tokens_in_batch_length)
qed

lemma expanded_items:
  assumes "DualEncoder_init up te le td ty fmt dr = Inr m" and "span_labels td"
  shows "set (idx2item (label_dictionary m)) = (\<Union>l\<in>set (get_items td). variants (up fmt) l)"
    and "distinct (idx2item (label_dictionary m))"
    and "tagset_size m = length (idx2item (label_dictionary m))"
proof -
  from assms(1) obtain ld where ld: "init_label_dictionary (up fmt) td = Inr ld"
    and m: "label_dictionary m = ld" "tagset_size m = dict_len ld"
    by (auto simp: DualEncoder_init_unfold bind_def split: sum.splits if_splits)
  from ld assms(2) have eq: "ld = foldl (expand_label (up fmt)) (Dictionary_init False) (get_items td)"
    by (auto simp: init_label_dictionary_def split: if_splits)
  show "set (idx2item (label_dictionary m)) = (\<Union>l\<in>set (get_items td). variants (up fmt) l)"
    by (simp add: m eq foldl_expand_set Dictionary_init_def)
  show "distinct (idx2item (label_dictionary m))"
    unfolding m eq by (rule foldl_expand_distinct) (simp add: Dictionary_init_def)
  show "tagset_size m = length (idx2item (label_dictionary m))"
    by (simp add: m dict_len_def)
qed

lemma bio_all_verbalized:
  assumes "DualEncoder_init up te le td ty fmt dr = Inr m" and "span_labels td"
    and "up fmt = ''BIO''"
  shows "length (idx2verbalized_label m) = tagset_size m"
proof -
  have "\<forall>x\<in>set (idx2item (label_dictionary m)). verbalized x"
    unfolding expanded_items(1) [OF assms(1,2)] assms(3)
    by (auto simp: variants_def verbalized_def startswith_def split: if_splits)
  then have "filter verbalized (idx2item (label_dictionary m)) = idx2item (label_dictionary m)"
    by (simp add: filter_id_conv)
  then show ?thesis
    by (simp add: init_verbalized_count [OF assms(1)] expanded_items(3) [OF assms(1,2)])
qed

lemma bio_logits_shape:
  assumes "DualEncoder_init up te le td ty fmt dr = Inr m" and "span_labels td"
    and "up fmt = ''BIO''"
    and "compute_logits m ss = Inr logits"
  shows "shape logits = (sum_list (map sentence_len ss), tagset_size m)"
  using logits_shape [OF assms(4)] bio_all_verbalized [OF assms(1-3)] by simp

lemma bioes_verbalized_count:
  assumes "DualEncoder_init up te le td ty fmt dr = Inr m" and "span_labels td"
    and "up fmt = ''BIOES''"
    and "set (get_items td) - {''<unk>''} \<noteq> {}"
  shows "length (idx2verbalized_label m) = 1 + 2 * card (set (get_items td) - {''<unk>''})"
    and "tagset_size m = 1 + 4 * card (set (get_items td) - {''<unk>''})"
proof -
  let ?L = "set (get_items td) - {''<unk>''}"
  let ?xs = "idx2item (label_dictionary m)"
  have fin: "finite ?L" by simp
  have st: "set ?xs = {''O''} \<union> (@) ''S-'' ` ?L \<union> (@) ''B-'' ` ?L \<union> (@) ''E-'' ` ?L \<union> (@) ''I-'' ` ?L"
    using assms(4)
    by (simp only: expanded_items(1) [OF assms(1,2)] assms(3) variants_Union_BIOES if_False)
  have "set (filter verbalized ?xs) = {x \<in> set ?xs. verbalized x}" by simp
  also have "\<dots> = {''O''} \<union> (@) ''B-'' ` ?L \<union> (@) ''I-'' ` ?L"
    unfolding st by (auto simp: verbalized_def startswith_def)
  finally have "card (set (filter verbalized ?xs)) = 1 + 2 * card ?L"
    by (simp only: card_BIO [OF fin])
  moreover have "distinct (filter verbalized ?xs)"
    using expanded_items(2) [OF assms(1,2)] by simp
  ultimately have "length (filter verbalized ?xs) = 1 + 2 * card ?L"
    by (simp only: distinct_card)
  then show "length (idx2verbalized_label m) = 1 + 2 * card ?L"
    by (simp only: init_verbalized_count [OF assms(1)])
  have "card (set ?xs) = 1 + 4 * card ?L"
    by (simp only: st card_BIOES [OF fin])
  then have "length ?xs = 1 + 4 * card ?L"
    using expanded_items(2) [OF assms(1,2)] by (simp only: distinct_card)
  then show "tagset_size m = 1 + 4 * card ?L"
    by (simp only: expanded_items(3) [OF assms(1,2)])
qed

lemma bioes_logits_shape:
  assumes "DualEncoder_init up te le td ty fmt dr = Inr m" and "span_labels td"
    and "up fmt = ''BIOES''"
    and "set (get_items td) - {''<unk>''} \<noteq> {}"
    and "compute_logits m ss = Inr logits"
  shows "snd (shape logits) < tagset_size m"
  using logits_shape [OF assms(5)] bioes_verbalized_count [OF assms(1-4)] assms(4)
  by (simp add: card_gt_0_iff)

text \<open>
  C1: the logits computed by \<open>forward\<close> have the shape tokens by tagset size, for
  BIO and for BIOES. The code breaks this for BIOES: for the model built from the base
  labels "person" and "location", a sentence of five tokens gets logits of shape
  5 by 5, and the tagset size is 9.
\<close>

theorem bioes_logits_columns:
  "DualEncoder_init ascii_upper unit_token_encoder unit_label_encoder example_tag_dictionary ''ner'' ''bioes'' 0
     = Inr example_bioes_model
   \<and> compute_logits example_bioes_model [example_sentence] = Inr (replicate 5 (replicate 5 1))
   \<and> shape (replicate 5 (replicate 5 1)) = (5, 5)
   \<and> tagset_size example_bioes_model = 9"
proof -
  have toks: "all_tokens_in_batch [example_sentence] =
      map (\<lambda>i. (example_sentence, i)) [0, 1, 2, 3, 4]"
    by (simp add: all_tokens_in_batch_def sentence_len_def example_sentence_def
        upt_rec [of 0] upt_rec [of "Suc _"] numeral_eq_Suc)
  have "compute_logits example_bioes_model [example_sentence] = Inr (replicate 5 (replicate 5 1))"
    by (simp add: compute_logits_def toks example_bioes_model_def unit_token_encoder_def
        unit_label_encoder_def torch_stack_def torch_mm_T_def bind_def dot_def numeral_eq_Suc)
  then show ?thesis
    by (simp add: example_bioes_model_init shape_def) (simp add: example_bioes_model_def)
qed

section \<open>Prediction raises\<close>

text \<open>
  \<open>predict\<close> calls \<open>forward\<close> with \<open>return_features=False\<close>, which returns the loss
  alone; unpacking it into a loss and predictions raises. So \<open>predict\<close> raises on
  every input that holds a sentence with a token.
\<close>

lemma forward_no_features:
  "forward m sentences inference False = Inr r \<Longrightarrow> \<exists>loss. r = Loss_Only loss"
  by (auto simp: forward_def bind_def split: sum.splits)

lemma predict_batch_raises:
  assumes "batch \<noteq> []"
  shows "\<exists>e. predict_batch m g label_name return_loss force st batch = Inl e"
proof (cases "forward m (map (remove_labels label_name) batch) True False")
  case (Inl e)
  then show ?thesis using assms by (simp add: predict_batch_def bind_def Let_def)
next
  case (Inr r)
  then obtain loss where "r = Loss_Only loss" using forward_no_features by blast
  with Inr show ?thesis
    using assms by (simp add: predict_batch_def bind_def Let_def unpack_loss_preds_def)
qed

lemma predict_raises:
  assumes "\<exists>s\<in>set sentences. 0 < sentence_len s"
  shows "\<exists>e. predict m g sentences mini_batch_size label_name return_loss force = Inl e"
proof (cases "mini_batch_size = 0")
  case True
  with assms show ?thesis by (auto simp: predict_def)
next
  case False
  define ss where "ss = filter (\<lambda>sentence. 0 < sentence_len sentence) sentences"
  have ne: "ss \<noteq> []" using assms by (auto simp: ss_def filter_empty_conv)
  have b: "batches mini_batch_size ss =
      take mini_batch_size ss # batches mini_batch_size (drop mini_batch_size ss)"
    using ne False by (subst batches.simps) simp
  have "take mini_batch_size ss \<noteq> []" using ne False by simp
  from predict_batch_raises [OF this] obtain e where
    "predict_batch m g (case label_name of None \<Rightarrow> tag_type m | Some n \<Rightarrow> n) return_loss force
       (0, 0, []) (take mini_batch_size ss) = Inl e"
    by blast
  then show ?thesis
    using assms ne False by (auto simp: predict_def Let_def b ss_def [symmetric] bind_def)
qed

lemma loss_fct_ok:
  "length gold = length logits \<Longrightarrow> \<forall>g\<in>set gold. g < length (hd logits) \<Longrightarrow>
   \<exists>loss. loss_fct logits gold = Inr loss"
  by (auto simp: loss_fct_def list_ex_iff)

lemma forward_Loss_Only:
  assumes "compute_logits m ss = Inr lg"
    and "get_gold_labels m ss = Inr gold"
    and "mapM (get_idx_for_item (label_dictionary m)) (concat gold) = Inr gi"
    and "loss_fct lg gi = Inr loss"
  shows "forward m ss inference False = Inr (Loss_Only loss)"
  by (simp add: forward_def assms bind_def)

text \<open>
  The loop of lines 237 to 240 by itself: a token gets the predicted tag as a label
  exactly when the tag is neither "O" nor "_".
\<close>

lemma add_token_predictions_length:
  "length (add_token_predictions n ts ps) = length ts"
  by (induction n ts ps rule: add_token_predictions.induct) auto

lemma add_token_predictions_nth:
  assumes "i < length ts" "i < length ps"
  shows "add_token_predictions n ts ps ! i =
     (if fst (ps ! i) \<in> {''O'', ''_''} then ts ! i
      else token_add_label n (fst (ps ! i)) (snd (ps ! i)) (ts ! i))"
  using assms
proof (induction n ts ps arbitrary: i rule: add_token_predictions.induct)
  case (1 label_name token ts label ls)
  then show ?case by (cases i) auto
qed auto

lemma token_level_labels:
  assumes "i < length ts" "i < length ps"
  shows "token_get_labels n (add_token_predictions n ts ps ! i) =
     token_get_labels n (ts ! i) @ (if fst (ps ! i) \<in> {''O'', ''_''} then [] else [ps ! i])"
  using assms by (simp add: add_token_predictions_nth token_get_labels_def token_add_label_def)

text \<open>
  C8: in token-level prediction mode \<open>predict\<close> attaches a label to a token exactly
  when its predicted tag is neither "O" nor "_". The code does not get that far: on a
  sentence of five tokens, with token-level prediction forced, \<open>predict\<close> raises
  TypeError and attaches nothing.
\<close>

theorem predict_token_level_raises:
  "predict example_bio_model no_spans [example_sentence] 32 None False True = Inl TypeError"
proof -
  define s' where "s' = remove_labels ''ner'' example_sentence"
  have s': "s' = \<lparr>tokens = [example_token 1, example_token 2, example_token 3, example_token 4,
                example_token 5], span_annotations = []\<rparr>"
    by (simp add: s'_def remove_labels_def example_sentence_def token_remove_labels_def
        example_token_def)
  have toks: "all_tokens_in_batch [s'] = map (\<lambda>i. (s', i)) [0, 1, 2, 3, 4]"
    by (simp add: all_tokens_in_batch_def sentence_len_def s'
        upt_rec [of 0] upt_rec [of "Suc _"] numeral_eq_Suc)
  have lg: "compute_logits example_bio_model [s'] = Inr (replicate 5 (replicate 5 1))"
    by (simp add: compute_logits_def toks example_bio_model_def unit_token_encoder_def
        unit_label_encoder_def torch_stack_def torch_mm_T_def bind_def dot_def numeral_eq_Suc)
  have gold: "get_gold_labels example_bio_model [s'] = Inr [[''O'', ''O'', ''O'', ''O'', ''O'']]"
    by (simp add: get_gold_labels_def sentence_gold_labels_def example_bio_model_def
        label_type_def get_labels_def s' sentence_len_def bind_def)
  have gidx: "mapM (get_idx_for_item (label_dictionary example_bio_model))
      (concat [[''O'', ''O'', ''O'', ''O'', ''O'']]) = Inr [0, 0, 0, 0, 0]"
    by (simp add: example_bio_model_def get_idx_for_item_def bind_def)
  obtain loss where loss: "loss_fct (replicate 5 (replicate 5 1)) [0, 0, 0, 0, 0] = Inr loss"
    using loss_fct_ok [of "[0, 0, 0, 0, 0]" "replicate 5 (replicate 5 1)"]
    by (auto simp: numeral_eq_Suc)
  have fw: "forward example_bio_model [s'] True False = Inr (Loss_Only loss)"
    by (rule forward_Loss_Only [OF lg gold gidx loss])
  have len: "0 < sentence_len example_sentence"
    by (simp add: sentence_len_def example_sentence_def)
  have b: "batches 32 [example_sentence] = [[example_sentence]]"
    by (subst batches.simps, subst batches.simps) simp
  have ty: "tag_type example_bio_model = ''ner''"
    by (simp add: example_bio_model_def)
  show ?thesis
    by (simp add: predict_def len b ty predict_batch_def s'_def [symmetric] fw bind_def
        unpack_loss_preds_def)
qed

end
